theory Spec2Isabelle
  imports Main "HOL-Library.AList"
begin

section \<open>Runtime values\<close>

text \<open>
  The client passes untyped values around: the request payload is \<^verbatim>\<open>unknown\<close>, rejection
  reasons are plain object literals, and the resolved value is either the parsed body or
  an object literal. They are modelled by one datatype of JavaScript values. An object
  literal is its list of own properties in insertion order. Numbers are the integers
  plus \<open>NaN\<close> (no claim depends on fractions). \<open>JError name message\<close> is an instance of
  \<^verbatim>\<open>Error\<close> (or of a subclass such as \<^verbatim>\<open>TypeError\<close>) with that \<^verbatim>\<open>name\<close>.
\<close>

datatype jsval =
    JUndefined
  | JNull
  | JBool bool
  | JNum int
  | JNaN
  | JStr string
  | JArr "jsval list"
  | JObj "(string \<times> jsval) list"
  | JFormData "(string \<times> string) list"
  | JBlob string
  | JError string string

text \<open>JavaScript truthiness: \<^verbatim>\<open>!v\<close> holds exactly for undefined, null, false, 0, NaN and ''.\<close>

fun truthy :: "jsval \<Rightarrow> bool" where
  "truthy JUndefined = False"
| "truthy JNull = False"
| "truthy (JBool b) = b"
| "truthy (JNum n) = (n \<noteq> 0)"
| "truthy JNaN = False"
| "truthy (JStr s) = (s \<noteq> [])"
| "truthy (JArr xs) = True"
| "truthy (JObj kvs) = True"
| "truthy (JFormData es) = True"
| "truthy (JBlob b) = True"
| "truthy (JError n m) = True"

text \<open>\<^verbatim>\<open>v instanceof FormData\<close>.\<close>

fun instanceofFormData :: "jsval \<Rightarrow> bool" where
  "instanceofFormData (JFormData es) = True"
| "instanceofFormData v = False"

text \<open>
  \<^verbatim>\<open>v.name\<close> for a value \<open>v\<close> that is neither undefined nor null: an own property of an
  object literal, the name of an error instance, undefined for everything else.
\<close>

fun getName :: "jsval \<Rightarrow> jsval" where
  "getName (JObj kvs) = (case map_of kvs ''name'' of None \<Rightarrow> JUndefined | Some v \<Rightarrow> v)"
| "getName (JError n m) = JStr n"
| "getName v = JUndefined"

text \<open>
  An object spread followed by one more property, \<^verbatim>\<open>{ ...obj, k: v }\<close>: the property
  replaces an entry of the same key where it stands, and is appended otherwise.
\<close>

definition setProp :: "string \<Rightarrow> jsval \<Rightarrow> (string \<times> jsval) list \<Rightarrow> (string \<times> jsval) list" where
  "setProp k v obj = AList.update k v obj"

text \<open>\<^verbatim>\<open>String.prototype.toUpperCase\<close> on the ASCII letters (the method names are ASCII).\<close>

definition toUpperChar :: "char \<Rightarrow> char" where
  "toUpperChar c =
     (let n = (of_char c :: nat) in if 97 \<le> n \<and> n \<le> 122 then char_of (n - 32) else c)"

definition toUpperCase :: "string \<Rightarrow> string" where
  "toUpperCase s = map toUpperChar s"

section \<open>External collaborators\<close>

text \<open>
  The query-string codec \<^verbatim>\<open>qs.stringify\<close> and \<^verbatim>\<open>JSON.stringify\<close> are not code of this
  client: every function that calls them takes them as a parameter.
\<close>

record platform =
  qs_stringify :: "jsval \<Rightarrow> string"
  JSON_stringify :: "jsval \<Rightarrow> string"

text \<open>
  For concrete instances, a platform whose two serialisers cover flat mappings of
  primitive values, which is what the instances below pass to them: \<^verbatim>\<open>qs.stringify\<close>
  writes \<^verbatim>\<open>key=value\<close> pairs joined by \<^verbatim>\<open>&\<close>, percent-encoding every byte outside the
  unreserved characters, with the empty text for null and no pair for undefined;
  \<^verbatim>\<open>JSON.stringify\<close> writes \<^verbatim>\<open>{"key":value}\<close>. A nested value is outside this fragment
  and is left out of the output.
\<close>

fun showNat :: "nat \<Rightarrow> string" where
  "showNat n =
     (if n < 10 then [char_of (48 + n)] else showNat (n div 10) @ [char_of (48 + n mod 10)])"

declare showNat.simps [simp del]

definition showInt :: "int \<Rightarrow> string" where
  "showInt i = (if i < 0 then ''-'' @ showNat (nat (- i)) else showNat (nat i))"

fun joinWith :: "string \<Rightarrow> string list \<Rightarrow> string" where
  "joinWith sep [] = []"
| "joinWith sep [x] = x"
| "joinWith sep (x # y # ys) = x @ sep @ joinWith sep (y # ys)"

definition unreserved :: "char \<Rightarrow> bool" where
  "unreserved c =
     (let n = (of_char c :: nat)
      in (48 \<le> n \<and> n \<le> 57) \<or> (65 \<le> n \<and> n \<le> 90) \<or> (97 \<le> n \<and> n \<le> 122)
         \<or> c = CHR ''-'' \<or> c = CHR ''.'' \<or> c = CHR ''_'' \<or> c = CHR ''~'')"

definition percentEncode :: "string \<Rightarrow> string" where
  "percentEncode s =
     concat (map (\<lambda>c. if unreserved c then [c]
                        else [CHR ''%'', ''0123456789ABCDEF'' ! (of_char c div 16),
                              ''0123456789ABCDEF'' ! (of_char c mod 16)]) s)"

fun qsPrimitive :: "jsval \<Rightarrow> string option" where
  "qsPrimitive JNull = Some []"
| "qsPrimitive (JBool b) = Some (if b then ''true'' else ''false'')"
| "qsPrimitive (JNum n) = Some (showInt n)"
| "qsPrimitive JNaN = Some ''NaN''"
| "qsPrimitive (JStr s) = Some s"
| "qsPrimitive v = None"

fun qsFlat :: "jsval \<Rightarrow> string" where
  "qsFlat (JObj kvs) =
     joinWith ''&''
       (concat (map (\<lambda>(k, v). case qsPrimitive v of
                                 None \<Rightarrow> []
                               | Some s \<Rightarrow> [percentEncode k @ ''='' @ percentEncode s]) kvs))"
| "qsFlat v = []"

definition jsonQuote :: "string \<Rightarrow> string" where
  "jsonQuote s =
     [CHR 0x22] @
     concat (map (\<lambda>c. if c = CHR 0x22 \<or> c = CHR 0x5C then [CHR 0x5C, c] else [c]) s) @
     [CHR 0x22]"

fun jsonPrimitive :: "jsval \<Rightarrow> string option" where
  "jsonPrimitive JNull = Some ''null''"
| "jsonPrimitive (JBool b) = Some (if b then ''true'' else ''false'')"
| "jsonPrimitive (JNum n) = Some (showInt n)"
| "jsonPrimitive JNaN = Some ''null''"
| "jsonPrimitive (JStr s) = Some (jsonQuote s)"
| "jsonPrimitive v = None"

fun jsonFlat :: "jsval \<Rightarrow> string" where
  "jsonFlat (JObj kvs) =
     ''{'' @
     joinWith '',''
       (concat (map (\<lambda>(k, v). case jsonPrimitive v of
                                 None \<Rightarrow> []
                               | Some s \<Rightarrow> [jsonQuote k @ '':'' @ s]) kvs)) @
     ''}''"
| "jsonFlat v = (case jsonPrimitive v of None \<Rightarrow> ''{}'' | Some s \<Rightarrow> s)"

definition flatPlatform :: platform where
  "flatPlatform = \<lparr> qs_stringify = qsFlat, JSON_stringify = jsonFlat \<rparr>"

section \<open>Options\<close>

text \<open>
  \<^verbatim>\<open>interface RequestOptions\<close>: every field is optional. An object can lack the property
  (\<open>Absent\<close>), have it with the value undefined (\<open>Undef\<close>, which the optional field's type
  admits), or have it with a value of the declared type (\<open>Val\<close>). Reading the property
  gives undefined in the first two cases; an object spread copies it in the last two.
  \<^verbatim>\<open>contentType\<close>, \<^verbatim>\<open>responseType\<close> and \<^verbatim>\<open>observe\<close> are strings at run time, and the code
  itself handles content and response types outside the declared unions.
\<close>

datatype 'a field =
    Absent
  | Undef
  | Val 'a

record RequestOptions =
  opt_headers :: "(string \<times> jsval) list field"
  opt_params :: "(string \<times> jsval) list field"
  opt_observe :: "string field"
  opt_contentType :: "string field"
  opt_responseType :: "string field"
  opt_timeout :: "int field"

definition defaultOptions :: RequestOptions where
  "defaultOptions =
     \<lparr> opt_headers = Val [],
       opt_params = Val [],
       opt_observe = Val ''body'',
       opt_contentType = Val ''json'',
       opt_responseType = Val ''json'',
       opt_timeout = Val 30000 \<rparr>"

text \<open>
  \<^verbatim>\<open>{ ...a, ...b }\<close> on two option bags: each own property of \<open>b\<close>, an undefined one
  included, overrides the property of \<open>a\<close>; nothing is merged below the top level.
\<close>

definition override :: "'a field \<Rightarrow> 'a field \<Rightarrow> 'a field" where
  "override b a = (case b of Absent \<Rightarrow> a | Undef \<Rightarrow> Undef | Val v \<Rightarrow> Val v)"

definition spread :: "RequestOptions \<Rightarrow> RequestOptions \<Rightarrow> RequestOptions" where
  "spread a b =
     \<lparr> opt_headers = override (opt_headers b) (opt_headers a),
       opt_params = override (opt_params b) (opt_params a),
       opt_observe = override (opt_observe b) (opt_observe a),
       opt_contentType = override (opt_contentType b) (opt_contentType a),
       opt_responseType = override (opt_responseType b) (opt_responseType a),
       opt_timeout = override (opt_timeout b) (opt_timeout a) \<rparr>"

text \<open>
  The non-null assertion \<^verbatim>\<open>options.contentType!\<close> is erased at run time. An undefined
  content or response type fails every comparison with a string literal and is
  concatenated as the text \<^verbatim>\<open>undefined\<close>, which is what the string \<^verbatim>\<open>'undefined'\<close> does
  too; the helper below reads such a field.
\<close>

definition strOrUndefined :: "string field \<Rightarrow> string" where
  "strOrUndefined x = (case x of Absent \<Rightarrow> ''undefined'' | Undef \<Rightarrow> ''undefined'' | Val s \<Rightarrow> s)"

section \<open>Building the request\<close>

definition combineQueryStrings :: "platform \<Rightarrow> string \<Rightarrow> (string \<times> jsval) list \<Rightarrow> string" where
  "combineQueryStrings env url params =
     (if length (map fst params) = 0 then url
      else url @ ''?'' @ qs_stringify env (JObj params))"

text \<open>The result is \<open>Inl\<close> of the thrown error, or \<open>Inr\<close> of the body handed to the transport.\<close>

definition parseRequestBody :: "platform \<Rightarrow> string \<Rightarrow> jsval \<Rightarrow> jsval + jsval" where
  "parseRequestBody env contentType body =
     (if \<not> truthy body then Inr JNull
      else if contentType = ''text'' then Inr (if truthy body then body else JStr '''')
      else if contentType = ''json'' then Inr (JStr (JSON_stringify env body))
      else if contentType = ''multipart'' then
        (if \<not> instanceofFormData body
         then Inl (JError ''Error'' ''require a FormData instance when content type is multipart'')
         else Inr body)
      else if contentType = ''urlencoded'' then Inr (JStr (qs_stringify env body))
      else Inl (JError ''Error'' (''unknown contentType: '' @ contentType)))"

definition mergeHeaders :: "(string \<times> jsval) list \<Rightarrow> string \<Rightarrow> (string \<times> jsval) list" where
  "mergeHeaders headers contentType =
     (let contentTypeHeader = ''plain/text'';
          contentTypeHeader = (if contentType = ''json'' then ''application/json'' else contentTypeHeader);
          contentTypeHeader = (if contentType = ''multipart'' then ''multipart/form-data'' else contentTypeHeader);
          contentTypeHeader = (if contentType = ''urlencoded'' then ''application/x-www-urlencoded'' else contentTypeHeader)
      in setProp ''Content-Type'' (JStr contentTypeHeader) headers)"

section \<open>The transport response\<close>

text \<open>
  What \<^verbatim>\<open>fetch\<close> resolves with: the six metadata fields the client copies, and for each
  body reader (\<^verbatim>\<open>json()\<close>, \<^verbatim>\<open>text()\<close>, \<^verbatim>\<open>blob()\<close>) how the promise it returns settles:
  \<open>Inr\<close> the parsed data, \<open>Inl\<close> the rejection reason.
\<close>

record Response =
  res_headers :: jsval
  res_ok :: bool
  res_redirected :: bool
  res_status :: int
  res_type :: string
  res_url :: string
  res_json :: "jsval + jsval"
  res_text :: "jsval + jsval"
  res_blob :: "jsval + jsval"

text \<open>The object literal \<^verbatim>\<open>baseResponse\<close> of the first \<^verbatim>\<open>then\<close> callback.\<close>

definition baseResponse :: "Response \<Rightarrow> (string \<times> jsval) list" where
  "baseResponse response =
     [(''headers'', res_headers response),
      (''ok'', JBool (res_ok response)),
      (''redirected'', JBool (res_redirected response)),
      (''status'', JNum (res_status response)),
      (''type'', JStr (res_type response)),
      (''url'', JStr (res_url response))]"

text \<open>
  \<open>Inl\<close>: the error thrown by the call itself; \<open>Inr p\<close>: the promise returned by the body
  reader, which later settles as \<open>p\<close>.
\<close>

definition parseResponseBody :: "string \<Rightarrow> Response \<Rightarrow> jsval + (jsval + jsval)" where
  "parseResponseBody responseType response =
     (if responseType = ''json'' then Inr (res_json response)
      else if responseType = ''text'' then Inr (res_text response)
      else if responseType = ''blob'' then Inr (res_blob response)
      else Inl (JError ''Error'' (''unknown responseType: '' @ responseType)))"

section \<open>The call and its race\<close>

text \<open>What the transport primitive \<^verbatim>\<open>fetch\<close> is called with.\<close>

record FetchRequest =
  req_url :: string
  req_method :: string
  req_body :: jsval
  req_headers :: "(string \<times> jsval) list"

text \<open>
  A call that \<^verbatim>\<open>send\<close> has started: the request it issued, the delay its timer was
  armed with, and what the callbacks of the chain close over (\<^verbatim>\<open>options\<close> and \<^verbatim>\<open>body\<close>).
\<close>

record call =
  call_request :: FetchRequest
  call_delay :: int
  call_options :: RequestOptions
  call_body :: jsval

text \<open>
  The promise made by \<^verbatim>\<open>timeout(delay)\<close> never resolves; when its timer fires it rejects
  with this value. The delay decides when the timer fires relative to the network, which
  the model leaves to the order of the events below.
\<close>

definition timeout :: jsval where
  "timeout = JObj [(''name'', JStr ''timeout''), (''message'', JStr ''timeout'')]"

text \<open>
  The second \<^verbatim>\<open>then\<close> callback, on \<^verbatim>\<open>[baseResponse, data]\<close>: \<open>Inl\<close> is the value it
  throws, \<open>Inr\<close> the value it returns. The test \<^verbatim>\<open>options.observe === body\<close> compares the
  observe mode (a string, or undefined when absent) with the request payload under
  strict equality.
\<close>

definition observeEqBody :: "string field \<Rightarrow> jsval \<Rightarrow> bool" where
  "observeEqBody observe body =
     (case observe of
        Absent \<Rightarrow> body = JUndefined
      | Undef \<Rightarrow> body = JUndefined
      | Val s \<Rightarrow> body = JStr s)"

definition onParsed :: "RequestOptions \<Rightarrow> jsval \<Rightarrow> Response \<Rightarrow> jsval \<Rightarrow> jsval + jsval" where
  "onParsed options body response data =
     (if res_status response \<noteq> 200 then
        Inl (JObj (setProp ''error'' data
               (setProp ''name'' (JStr ''httpErrorResponse'') (baseResponse response))))
      else if observeEqBody (opt_observe options) body then Inr data
      else Inr (JObj (setProp ''body'' data (baseResponse response))))"

text \<open>The \<^verbatim>\<open>catch\<close> callback: it always throws, and the result is the value thrown.\<close>

definition onCatch :: "jsval \<Rightarrow> jsval" where
  "onCatch err =
     (if truthy err \<and> getName err = JStr ''httpErrorResponse'' then err
      else JObj [(''name'', JStr ''networkError''), (''error'', err)])"

text \<open>
  \<^verbatim>\<open>send\<close> evaluates the arguments of \<^verbatim>\<open>fetch\<close> in order, calls \<^verbatim>\<open>fetch\<close>, chains the
  callbacks, arms the timer and returns the race. An exception in an argument leaves
  \<^verbatim>\<open>send\<close> before \<^verbatim>\<open>fetch\<close> is called: the result is \<open>Inl\<close> of the exception, and
  \<open>Inr\<close> of the started call otherwise. \<^verbatim>\<open>Object.keys(undefined)\<close> is a TypeError,
  \<^verbatim>\<open>{ ...undefined }\<close> is the empty object and \<^verbatim>\<open>setTimeout\<close> reads an undefined delay
  as 0.
\<close>

definition send :: "platform \<Rightarrow> string \<Rightarrow> string \<Rightarrow> RequestOptions \<Rightarrow> jsval \<Rightarrow> jsval + call" where
  "send env method url options body =
     (case opt_params options of
        Absent \<Rightarrow> Inl (JError ''TypeError'' ''Cannot convert undefined or null to object'')
      | Undef \<Rightarrow> Inl (JError ''TypeError'' ''Cannot convert undefined or null to object'')
      | Val params \<Rightarrow>
          (case parseRequestBody env (strOrUndefined (opt_contentType options)) body of
             Inl err \<Rightarrow> Inl err
           | Inr encoded \<Rightarrow>
               Inr \<lparr> call_request =
                       \<lparr> req_url = combineQueryStrings env url params,
                         req_method = toUpperCase method,
                         req_body = encoded,
                         req_headers =
                           mergeHeaders
                             (case opt_headers options of Absent \<Rightarrow> [] | Undef \<Rightarrow> [] | Val hs \<Rightarrow> hs)
                             (strOrUndefined (opt_contentType options)) \<rparr>,
                     call_delay =
                       (case opt_timeout options of Absent \<Rightarrow> 0 | Undef \<Rightarrow> 0 | Val d \<Rightarrow> d),
                     call_options = options,
                     call_body = body \<rparr>))"


subsection \<open>Settling\<close>

text \<open>
  After \<^verbatim>\<open>send\<close> has returned, the event loop delivers, in some order: the settling of
  the \<^verbatim>\<open>fetch\<close> promise, the settling of the body reader's promise, and the timer's
  callback. The callbacks chained on a settled promise run as microtasks, before the
  next of these events. The chain \<^verbatim>\<open>fetch(..).then(..).then(..).catch(..)\<close> is waiting
  for the transport, waiting for the body reader, or done; the promise of
  \<^verbatim>\<open>Promise.race\<close> is pending, resolved or rejected, and settles once.
\<close>

datatype event =
    FetchResolves Response
  | FetchRejects jsval
  | BodySettles
  | TimerFires

datatype chain =
    AwaitFetch
  | AwaitBody Response "jsval + jsval"
  | ChainDone

datatype promise =
    Pending
  | Resolved jsval
  | Rejected jsval

text \<open>A competitor of the race settles: the first one decides, the others are ignored.\<close>

fun settle :: "promise \<Rightarrow> jsval + jsval \<Rightarrow> promise" where
  "settle Pending (Inl err) = Rejected err"
| "settle Pending (Inr v) = Resolved v"
| "settle p r = p"

text \<open>
  One event. When the transport resolves, the first \<^verbatim>\<open>then\<close> callback captures the
  metadata and calls \<^verbatim>\<open>parseResponseBody\<close>; an exception there rejects the chain, through
  \<^verbatim>\<open>catch\<close>, in the same turn, and otherwise the chain waits for the body reader
  (\<^verbatim>\<open>Promise.all\<close> of the metadata and the reader's promise). When the transport rejects,
  \<^verbatim>\<open>catch\<close> runs on the reason. When the body reader settles, a rejection goes to
  \<^verbatim>\<open>catch\<close> and the data to the second \<^verbatim>\<open>then\<close> callback, whose exception goes to
  \<^verbatim>\<open>catch\<close> as well. When the timer fires, the timer's promise rejects. An event the
  chain is not waiting for changes nothing.
\<close>

fun step :: "call \<Rightarrow> chain \<times> promise \<Rightarrow> event \<Rightarrow> chain \<times> promise" where
  "step c (AwaitFetch, p) (FetchResolves response) =
     (case parseResponseBody (strOrUndefined (opt_responseType (call_options c))) response of
        Inl err \<Rightarrow> (ChainDone, settle p (Inl (onCatch err)))
      | Inr reader \<Rightarrow> (AwaitBody response reader, p))"
| "step c (AwaitFetch, p) (FetchRejects err) = (ChainDone, settle p (Inl (onCatch err)))"
| "step c (AwaitBody response reader, p) BodySettles =
     (case reader of
        Inl err \<Rightarrow> (ChainDone, settle p (Inl (onCatch err)))
      | Inr data \<Rightarrow>
          (case onParsed (call_options c) (call_body c) response data of
             Inl thrown \<Rightarrow> (ChainDone, settle p (Inl (onCatch thrown)))
           | Inr v \<Rightarrow> (ChainDone, settle p (Inr v))))"
| "step c (ch, p) TimerFires = (ch, settle p (Inl timeout))"
| "step c (ch, p) ev = (ch, p)"

definition run :: "call \<Rightarrow> event list \<Rightarrow> chain \<times> promise" where
  "run c evs = foldl (step c) (AwaitFetch, Pending) evs"

definition outcome :: "call \<Rightarrow> event list \<Rightarrow> promise" where
  "outcome c evs = snd (run c evs)"

section \<open>The public operations\<close>

definition get :: "platform \<Rightarrow> string \<Rightarrow> RequestOptions \<Rightarrow> jsval + call" where
  "get env url options = send env ''get'' url (spread defaultOptions options) JNull"

definition delete :: "platform \<Rightarrow> string \<Rightarrow> RequestOptions \<Rightarrow> jsval + call" where
  "delete env url options = send env ''delete'' url (spread defaultOptions options) JNull"

definition post :: "platform \<Rightarrow> string \<Rightarrow> jsval \<Rightarrow> RequestOptions \<Rightarrow> jsval + call" where
  "post env url body options = send env ''post'' url (spread defaultOptions options) body"

definition put :: "platform \<Rightarrow> string \<Rightarrow> jsval \<Rightarrow> RequestOptions \<Rightarrow> jsval + call" where
  "put env url body options = send env ''put'' url (spread defaultOptions options) body"

definition patch :: "platform \<Rightarrow> string \<Rightarrow> jsval \<Rightarrow> RequestOptions \<Rightarrow> jsval + call" where
  "patch env url body options = send env ''put'' url (spread defaultOptions options) body"

section \<open>Concrete instances\<close>

text \<open>
  Inputs for the instances evaluated below: the empty option bag, a 200 and a 404 response
  whose body is the text \<^verbatim>\<open>1\<close> or \<^verbatim>\<open>0\<close>, and the call that \<^verbatim>\<open>get('/ping', {})\<close> starts.
\<close>

definition noOptions :: RequestOptions where
  "noOptions =
     \<lparr> opt_headers = Absent, opt_params = Absent, opt_observe = Absent,
       opt_contentType = Absent, opt_responseType = Absent, opt_timeout = Absent \<rparr>"

definition okResponse :: Response where
  "okResponse =
     \<lparr> res_headers = JObj [], res_ok = True, res_redirected = False, res_status = 200,
       res_type = ''basic'', res_url = ''/ping'',
       res_json = Inr (JNum 1), res_text = Inr (JStr ''1''), res_blob = Inr (JBlob ''1'') \<rparr>"

definition notFoundResponse :: Response where
  "notFoundResponse =
     \<lparr> res_headers = JObj [], res_ok = False, res_redirected = False, res_status = 404,
       res_type = ''basic'', res_url = ''/ping'',
       res_json = Inr (JNum 0), res_text = Inr (JStr ''0''), res_blob = Inr (JBlob ''0'') \<rparr>"

definition pingCall :: call where
  "pingCall =
     \<lparr> call_request =
         \<lparr> req_url = ''/ping'', req_method = ''GET'', req_body = JNull,
           req_headers = [(''Content-Type'', JStr ''application/json'')] \<rparr>,
       call_delay = 30000,
       call_options = defaultOptions,
       call_body = JNull \<rparr>"

section \<open>Lemmas\<close>

subsection \<open>Options and request\<close>

lemma merged_fields:
  "opt_headers (spread defaultOptions options) = (if opt_headers options = Absent then Val [] else opt_headers options)"
  "opt_params (spread defaultOptions options) = (if opt_params options = Absent then Val [] else opt_params options)"
  "opt_observe (spread defaultOptions options) = (if opt_observe options = Absent then Val ''body'' else opt_observe options)"
  "opt_contentType (spread defaultOptions options) = (if opt_contentType options = Absent then Val ''json'' else opt_contentType options)"
  "opt_responseType (spread defaultOptions options) = (if opt_responseType options = Absent then Val ''json'' else opt_responseType options)"
  "opt_timeout (spread defaultOptions options) = (if opt_timeout options = Absent then Val 30000 else opt_timeout options)"
  by (simp_all add: spread_def defaultOptions_def override_def split: field.splits)

lemma spread_noOptions: "spread defaultOptions noOptions = defaultOptions"
  by (simp add: spread_def defaultOptions_def noOptions_def override_def)

lemma toUpperCase_methods:
  "toUpperCase ''get'' = ''GET''"
  "toUpperCase ''delete'' = ''DELETE''"
  "toUpperCase ''post'' = ''POST''"
  "toUpperCase ''put'' = ''PUT''"
  by code_simp+

lemma send_Inr:
  "send env method url options body = Inr c \<Longrightarrow>
     call_options c = options \<and> call_body c = body
     \<and> req_method (call_request c) = toUpperCase method"
  by (auto simp add: send_def split: field.splits sum.splits)

text \<open>
  With merged options, \<^verbatim>\<open>send\<close> fails exactly when params is undefined or the body encoder
  throws.
\<close>

lemma send_merged:
  "send env method url (spread defaultOptions options) body =
     (if opt_params options = Undef
      then Inl (JError ''TypeError'' ''Cannot convert undefined or null to object'')
      else case parseRequestBody env (strOrUndefined (opt_contentType (spread defaultOptions options))) body of
        Inl err \<Rightarrow> Inl err
      | Inr encoded \<Rightarrow>
          Inr \<lparr> call_request =
                  \<lparr> req_url = combineQueryStrings env url
                                (case opt_params options of Absent \<Rightarrow> [] | Undef \<Rightarrow> [] | Val v \<Rightarrow> v),
                    req_method = toUpperCase method,
                    req_body = encoded,
                    req_headers =
                      mergeHeaders (case opt_headers options of Absent \<Rightarrow> [] | Undef \<Rightarrow> [] | Val v \<Rightarrow> v)
                        (strOrUndefined (opt_contentType (spread defaultOptions options))) \<rparr>,
                call_delay = (case opt_timeout options of Absent \<Rightarrow> 30000 | Undef \<Rightarrow> 0 | Val v \<Rightarrow> v),
                call_options = spread defaultOptions options,
                call_body = body \<rparr>)"
  by (simp add: send_def merged_fields split: sum.splits field.splits)

lemma parseRequestBody_falsy: "\<not> truthy body \<Longrightarrow> parseRequestBody env contentType body = Inr JNull"
  by (simp add: parseRequestBody_def)




lemma observeEqBody_JNull: "\<not> observeEqBody observe JNull"
  by (simp add: observeEqBody_def split: field.splits)

lemma envelope_fields:
  "setProp ''error'' data (setProp ''name'' v (baseResponse response)) =
     baseResponse response @ [(''name'', v), (''error'', data)]"
  "setProp ''body'' data (baseResponse response) = baseResponse response @ [(''body'', data)]"
  by (simp_all add: setProp_def baseResponse_def)

lemma getName_onCatch:
  "getName (onCatch err) = JStr ''httpErrorResponse'' \<or> getName (onCatch err) = JStr ''networkError''"
  by (simp add: onCatch_def)

lemma onCatch_neq_timeout: "onCatch err \<noteq> timeout"
proof
  assume "onCatch err = timeout"
  then have "getName (onCatch err) = getName timeout" by simp
  with getName_onCatch [of err] show False by (auto simp add: timeout_def)
qed


lemma onCatch_envelope:
  "onCatch (JObj (baseResponse response @ [(''name'', JStr ''httpErrorResponse''), (''error'', data)])) =
     JObj (baseResponse response @ [(''name'', JStr ''httpErrorResponse''), (''error'', data)])"
  by (simp add: onCatch_def baseResponse_def)

subsection \<open>The race settles once\<close>

lemma settle_not_Pending: "settle p r \<noteq> Pending"
  by (cases p; cases r) simp_all

lemma settle_settled: "p \<noteq> Pending \<Longrightarrow> settle p r = p"
  by (cases p) simp_all

lemma snd_step_settled: "p \<noteq> Pending \<Longrightarrow> snd (step c (ch, p) ev) = p"
  by (cases ch; cases ev) (simp_all add: settle_settled split: sum.splits)

lemma foldl_step_settled: "snd st \<noteq> Pending \<Longrightarrow> snd (foldl (step c) st evs) = snd st"
proof (induction evs arbitrary: st)
  case Nil
  then show ?case by simp
next
  case (Cons ev evs)
  obtain ch p where st: "st = (ch, p)" by (cases st)
  with Cons.prems have "snd (step c st ev) = p" by (simp add: snd_step_settled)
  with Cons.IH [of "step c st ev"] Cons.prems st show ?case by simp
qed

lemma run_append: "run c (evs @ evs') = foldl (step c) (run c evs) evs'"
  by (simp add: run_def)

lemma step_TimerFires: "step c st TimerFires = (fst st, settle (snd st) (Inl timeout))"
  by (cases st; cases "fst st") simp_all

lemma outcome_settled:
  "outcome c evs \<noteq> Pending \<Longrightarrow> outcome c (evs @ evs') = outcome c evs"
  by (simp add: outcome_def run_append foldl_step_settled)

text \<open>Before the timer fires, the race is pending exactly while the chain is not done.\<close>

lemma step_chain_race:
  assumes "ev \<noteq> TimerFires" and "(p = Pending) = (ch \<noteq> ChainDone)"
    and "p \<noteq> Rejected timeout"
  shows "(snd (step c (ch, p) ev) = Pending) = (fst (step c (ch, p) ev) \<noteq> ChainDone)
         \<and> snd (step c (ch, p) ev) \<noteq> Rejected timeout"
  using assms
  by (cases ch; cases ev; cases p)
     (auto simp add: onCatch_neq_timeout split: sum.splits)

lemma run_chain_race:
  "TimerFires \<notin> set evs \<Longrightarrow>
     (snd (run c evs) = Pending) = (fst (run c evs) \<noteq> ChainDone)
     \<and> snd (run c evs) \<noteq> Rejected timeout"
proof (induction evs rule: rev_induct)
  case Nil
  then show ?case by (simp add: run_def)
next
  case (snoc ev evs)
  obtain ch p where st: "run c evs = (ch, p)" by (cases "run c evs")
  from snoc have ih: "(p = Pending) = (ch \<noteq> ChainDone)" "p \<noteq> Rejected timeout"
    and ev: "ev \<noteq> TimerFires"
    using st by auto
  from step_chain_race [OF ev ih, of c] st show ?case
    by (simp add: run_append)
qed

lemma outcome_timer:
  assumes "TimerFires \<notin> set evs"
  shows "outcome c (evs @ TimerFires # evs') =
           (if fst (run c evs) = ChainDone then outcome c evs else Rejected timeout)
         \<and> (if fst (run c evs) = ChainDone
            then outcome c evs \<noteq> Pending \<and> outcome c evs \<noteq> Rejected timeout
            else outcome c evs = Pending)"
proof -
  obtain ch p where st: "run c evs = (ch, p)" by (cases "run c evs")
  from run_chain_race [OF assms, of c] st
  have inv: "(p = Pending) = (ch \<noteq> ChainDone)" "p \<noteq> Rejected timeout" by simp_all
  have "outcome c (evs @ TimerFires # evs') =
          snd (foldl (step c) (ch, settle p (Inl timeout)) evs')"
    by (simp add: outcome_def run_append st step_TimerFires)
  also have "\<dots> = settle p (Inl timeout)"
    by (rule trans [OF foldl_step_settled]) (simp_all add: settle_not_Pending)
  finally have "outcome c (evs @ TimerFires # evs') = settle p (Inl timeout)" .
  with inv st show ?thesis
    by (cases p) (auto simp add: outcome_def)
qed

subsection \<open>What the chain settles with\<close>

lemma outcome_parsed:
  assumes "parseResponseBody (strOrUndefined (opt_responseType (call_options c))) response = Inr (Inr data)"
  shows "outcome c (FetchResolves response # BodySettles # evs) =
           (case onParsed (call_options c) (call_body c) response data of
              Inl thrown \<Rightarrow> Rejected (onCatch thrown) | Inr v \<Rightarrow> Resolved v)"
proof -
  have "run c [FetchResolves response, BodySettles] =
          (ChainDone, case onParsed (call_options c) (call_body c) response data of
              Inl thrown \<Rightarrow> Rejected (onCatch thrown) | Inr v \<Rightarrow> Resolved v)"
    using assms by (simp add: run_def split: sum.splits)
  then have "snd (foldl (step c) (run c [FetchResolves response, BodySettles]) evs) =
          (case onParsed (call_options c) (call_body c) response data of
              Inl thrown \<Rightarrow> Rejected (onCatch thrown) | Inr v \<Rightarrow> Resolved v)"
    by (simp add: foldl_step_settled split: sum.splits)
  then show ?thesis
    using run_append [of c "[FetchResolves response, BodySettles]" evs]
    by (simp add: outcome_def)
qed

lemma outcome_classified:
  assumes "parseResponseBody (strOrUndefined (opt_responseType (call_options c))) response = Inr (Inr data)"
  shows "outcome c (FetchResolves response # BodySettles # evs) =
           (if res_status response = 200
            then Resolved (if observeEqBody (opt_observe (call_options c)) (call_body c) then data
                           else JObj (baseResponse response @ [(''body'', data)]))
            else Rejected (JObj (baseResponse response @
                                   [(''name'', JStr ''httpErrorResponse''), (''error'', data)])))"
  using outcome_parsed [OF assms, of evs]
  by (simp add: onParsed_def envelope_fields onCatch_envelope)

text \<open>The timer fires while the body reader is still reading.\<close>

lemma outcome_timer_while_reading:
  assumes "parseResponseBody (strOrUndefined (opt_responseType (call_options c))) response = Inr reader"
  shows "outcome c (FetchResolves response # TimerFires # evs) = Rejected timeout"
proof -
  have "outcome c [FetchResolves response, TimerFires] = Rejected timeout"
    using assms by (simp add: outcome_def run_def)
  with outcome_settled [of c "[FetchResolves response, TimerFires]" evs] show ?thesis by simp
qed




text \<open>One event on a pending race: what it does to the chain and to the race.\<close>

lemma step_pending_cases:
  assumes "step c (ch, Pending) ev = (ch', p')"
  shows
    "(p' = Pending \<and> (ch' = ch \<or>
        (\<exists>response reader. ev = FetchResolves response
           \<and> parseResponseBody (strOrUndefined (opt_responseType (call_options c))) response = Inr reader
           \<and> ch' = AwaitBody response reader)))
     \<or> p' = Rejected timeout
     \<or> (\<exists>err. ev = FetchRejects err \<and> p' = Rejected (onCatch err))
     \<or> (\<exists>response err. ev = FetchResolves response
           \<and> parseResponseBody (strOrUndefined (opt_responseType (call_options c))) response = Inl err
           \<and> p' = Rejected (onCatch err))
     \<or> (\<exists>response err. ch = AwaitBody response (Inl err) \<and> p' = Rejected (onCatch err))
     \<or> (\<exists>response data. ch = AwaitBody response (Inr data)
           \<and> p' = (if res_status response = 200
                    then Resolved (if observeEqBody (opt_observe (call_options c)) (call_body c) then data
                                   else JObj (baseResponse response @ [(''body'', data)]))
                    else Rejected (JObj (baseResponse response @
                                   [(''name'', JStr ''httpErrorResponse''), (''error'', data)]))))"
  using assms
  by (cases ch; cases ev)
     (auto simp add: onParsed_def envelope_fields onCatch_envelope split: sum.splits if_splits)

text \<open>
  Every way a trace can leave the race, with the response and the rejection reason it
  comes from.
\<close>

lemma foldl_outcome_cases:
  assumes "\<forall>response reader. ch = AwaitBody response reader \<longrightarrow>
             parseResponseBody (strOrUndefined (opt_responseType (call_options c))) response = Inr reader"
  shows
    "snd (foldl (step c) (ch, Pending) evs) = Pending
     \<or> snd (foldl (step c) (ch, Pending) evs) = Rejected timeout
     \<or> (\<exists>err. (FetchRejects err \<in> set evs
               \<or> (\<exists>response. (FetchResolves response \<in> set evs \<or> (\<exists>reader. ch = AwaitBody response reader))
                    \<and> (parseResponseBody (strOrUndefined (opt_responseType (call_options c))) response = Inl err
                       \<or> parseResponseBody (strOrUndefined (opt_responseType (call_options c))) response = Inr (Inl err))))
           \<and> snd (foldl (step c) (ch, Pending) evs) = Rejected (onCatch err))
     \<or> (\<exists>response data. (FetchResolves response \<in> set evs \<or> (\<exists>reader. ch = AwaitBody response reader))
           \<and> parseResponseBody (strOrUndefined (opt_responseType (call_options c))) response = Inr (Inr data)
           \<and> snd (foldl (step c) (ch, Pending) evs) =
               (if res_status response = 200
                then Resolved (if observeEqBody (opt_observe (call_options c)) (call_body c) then data
                               else JObj (baseResponse response @ [(''body'', data)]))
                else Rejected (JObj (baseResponse response @
                               [(''name'', JStr ''httpErrorResponse''), (''error'', data)]))))"
proof -
  define P where "P = parseResponseBody (strOrUndefined (opt_responseType (call_options c)))"
  define R where "R = (\<lambda>response data.
      if res_status response = 200
      then Resolved (if observeEqBody (opt_observe (call_options c)) (call_body c) then data
                     else JObj (baseResponse response @ [(''body'', data)]))
      else Rejected (JObj (baseResponse response @
                     [(''name'', JStr ''httpErrorResponse''), (''error'', data)])))"
  define S where "S = (\<lambda>ch evs q.
      q = Pending
      \<or> q = Rejected timeout
      \<or> (\<exists>err. (FetchRejects err \<in> set evs
               \<or> (\<exists>response. (FetchResolves response \<in> set evs \<or> (\<exists>reader. ch = AwaitBody response reader))
                    \<and> (P response = Inl err \<or> P response = Inr (Inl err))))
           \<and> q = Rejected (onCatch err))
      \<or> (\<exists>response data. (FetchResolves response \<in> set evs \<or> (\<exists>reader. ch = AwaitBody response reader))
           \<and> P response = Inr (Inr data) \<and> q = R response data))"
  have later: "S ch' evs q \<Longrightarrow>
      ch' = ch \<or> (\<exists>response reader. ev = FetchResolves response \<and> ch' = AwaitBody response reader) \<Longrightarrow>
      S ch (ev # evs) q" for ch ch' ev evs q
    unfolding S_def list.set insert_iff by blast
  have now: "S ch (ev # evs) p'"
    if st: "step c (ch, Pending) ev = (ch', p')"
      and wf: "\<forall>response reader. ch = AwaitBody response reader \<longrightarrow> P response = Inr reader"
    for ch ch' ev evs p'
  proof -
    have "(p' = Pending \<and> (ch' = ch \<or>
            (\<exists>response reader. ev = FetchResolves response \<and> P response = Inr reader
               \<and> ch' = AwaitBody response reader)))
          \<or> p' = Rejected timeout
          \<or> (\<exists>err. ev = FetchRejects err \<and> p' = Rejected (onCatch err))
          \<or> (\<exists>response err. ev = FetchResolves response \<and> P response = Inl err
                \<and> p' = Rejected (onCatch err))
          \<or> (\<exists>response err. ch = AwaitBody response (Inl err) \<and> p' = Rejected (onCatch err))
          \<or> (\<exists>response data. ch = AwaitBody response (Inr data) \<and> p' = R response data)"
      unfolding P_def R_def by (rule step_pending_cases [OF st])
    with wf show ?thesis
      unfolding S_def list.set insert_iff by blast
  qed
  have main: "(\<forall>response reader. ch = AwaitBody response reader \<longrightarrow> P response = Inr reader) \<Longrightarrow>
      S ch evs (snd (foldl (step c) (ch, Pending) evs))" for ch
  proof (induction evs arbitrary: ch)
    case Nil
    then show ?case by (simp add: S_def)
  next
    case (Cons ev evs)
    obtain ch' p' where st: "step c (ch, Pending) ev = (ch', p')"
      by (cases "step c (ch, Pending) ev")
    show ?case
    proof (cases "p' = Pending")
      case True
      with step_pending_cases [OF st] have ch': "ch' = ch \<or>
          (\<exists>response reader. ev = FetchResolves response \<and> P response = Inr reader
             \<and> ch' = AwaitBody response reader)"
        unfolding P_def by (auto split: if_splits)
      with Cons.prems
      have wf: "\<forall>response reader. ch' = AwaitBody response reader \<longrightarrow> P response = Inr reader"
        by auto
      from ch' have "ch' = ch \<or>
          (\<exists>response reader. ev = FetchResolves response \<and> ch' = AwaitBody response reader)"
        by blast
      from later [OF Cons.IH [OF wf] this] st True show ?thesis by simp
    next
      case False
      then have "snd (foldl (step c) (ch, Pending) (ev # evs)) = p'"
        using st foldl_step_settled [of "(ch', p')" c evs] by simp
      with now [OF st Cons.prems] show ?thesis by simp
    qed
  qed
  from main [of ch] assms show ?thesis
    unfolding S_def P_def R_def by simp
qed

lemma outcome_cases:
  "outcome c evs = Pending
   \<or> outcome c evs = Rejected timeout
   \<or> (\<exists>err. (FetchRejects err \<in> set evs
             \<or> (\<exists>response. FetchResolves response \<in> set evs
                  \<and> (parseResponseBody (strOrUndefined (opt_responseType (call_options c))) response = Inl err
                     \<or> parseResponseBody (strOrUndefined (opt_responseType (call_options c))) response = Inr (Inl err))))
         \<and> outcome c evs = Rejected (onCatch err))
   \<or> (\<exists>response data. FetchResolves response \<in> set evs
         \<and> parseResponseBody (strOrUndefined (opt_responseType (call_options c))) response = Inr (Inr data)
         \<and> outcome c evs =
             (if res_status response = 200
              then Resolved (if observeEqBody (opt_observe (call_options c)) (call_body c) then data
                             else JObj (baseResponse response @ [(''body'', data)]))
              else Rejected (JObj (baseResponse response @
                             [(''name'', JStr ''httpErrorResponse''), (''error'', data)]))))"
  using foldl_outcome_cases [of AwaitFetch c evs]
  by (simp add: outcome_def run_def)



lemma outcome_resolved_cases:
  assumes "outcome c evs = Resolved v"
  shows "\<exists>response data. FetchResolves response \<in> set evs
         \<and> parseResponseBody (strOrUndefined (opt_responseType (call_options c))) response = Inr (Inr data)
         \<and> res_status response = 200
         \<and> v = (if observeEqBody (opt_observe (call_options c)) (call_body c) then data
                 else JObj (baseResponse response @ [(''body'', data)]))"
  using outcome_cases [of c evs] unfolding assms
  by (auto split: if_splits)




lemma public_ops_send:
  assumes "r \<in> {get env url options, delete env url options, post env url body options,
                put env url body options, patch env url body options}"
  shows "\<exists>m b. r = send env m url (spread defaultOptions options) b"
  using assms unfolding get_def delete_def post_def put_def patch_def by blast

lemma public_ops_call:
  assumes "r \<in> {get env url options, delete env url options, post env url body options,
                put env url body options, patch env url body options}"
    and "r = Inr c"
  shows "call_options c = spread defaultOptions options"
proof -
  from public_ops_send [OF assms(1)] assms(2) obtain m b
    where "send env m url (spread defaultOptions options) b = Inr c" by auto
  from send_Inr [OF this] show ?thesis by simp
qed

lemma baseResponse_append:
  "baseResponse response @ xs =
     (''headers'', res_headers response) # (''ok'', JBool (res_ok response)) #
     (''redirected'', JBool (res_redirected response)) # (''status'', JNum (res_status response)) #
     (''type'', JStr (res_type response)) # (''url'', JStr (res_url response)) # xs"
  by (simp add: baseResponse_def)

subsection \<open>The instances\<close>

lemma get_ping: "get flatPlatform ''/ping'' noOptions = Inr pingCall"
proof -
  have "get flatPlatform ''/ping'' noOptions = send flatPlatform ''get'' ''/ping'' defaultOptions JNull"
    by (simp add: get_def spread_noOptions)
  also have "\<dots> = Inr pingCall"
    by (simp add: send_def defaultOptions_def parseRequestBody_falsy toUpperCase_methods
          strOrUndefined_def combineQueryStrings_def mergeHeaders_def setProp_def pingCall_def)
  finally show ?thesis .
qed

lemma pingCall_reader:
  "parseResponseBody (strOrUndefined (opt_responseType (call_options pingCall))) okResponse = Inr (Inr (JNum 1))"
  "parseResponseBody (strOrUndefined (opt_responseType (call_options pingCall))) notFoundResponse = Inr (Inr (JNum 0))"
  by (simp_all add: pingCall_def defaultOptions_def strOrUndefined_def parseResponseBody_def
        okResponse_def notFoundResponse_def)

lemma pingCall_fields:
  "call_options pingCall = defaultOptions" "call_body pingCall = JNull"
  by (simp_all add: pingCall_def)

lemma ping_ok:
  "outcome pingCall [FetchResolves okResponse, BodySettles] =
     Resolved (JObj [(''headers'', JObj []), (''ok'', JBool True), (''redirected'', JBool False),
                     (''status'', JNum 200), (''type'', JStr ''basic''), (''url'', JStr ''/ping''),
                     (''body'', JNum 1)])"
  using outcome_classified [OF pingCall_reader(1), of "[]"]
  by (simp add: pingCall_fields observeEqBody_JNull)
     (simp add: okResponse_def baseResponse_def)

lemma ping_notFound:
  "outcome pingCall [FetchResolves notFoundResponse, BodySettles] =
     Rejected (JObj [(''headers'', JObj []), (''ok'', JBool False), (''redirected'', JBool False),
                     (''status'', JNum 404), (''type'', JStr ''basic''), (''url'', JStr ''/ping''),
                     (''name'', JStr ''httpErrorResponse''), (''error'', JNum 0)])"
  using outcome_classified [OF pingCall_reader(2), of "[]"]
  by (simp add: notFoundResponse_def baseResponse_def)

lemma run_ping:
  "run pingCall [] = (AwaitFetch, Pending)"
  "run pingCall [FetchResolves okResponse] = (AwaitBody okResponse (Inr (JNum 1)), Pending)"
  "run pingCall [FetchResolves notFoundResponse] = (AwaitBody notFoundResponse (Inr (JNum 0)), Pending)"
  "fst (run pingCall [FetchResolves okResponse, BodySettles]) = ChainDone"
  by (simp_all add: run_def pingCall_reader split: sum.splits)

lemma patch_items:
  "\<exists>c. patch flatPlatform ''/items'' (JObj [(''a'', JNum 1)]) noOptions = Inr c"
  by (simp add: patch_def send_merged merged_fields strOrUndefined_def noOptions_def
        parseRequestBody_def)

lemma post_observe_body:
  "\<exists>c. post flatPlatform ''/items'' (JObj [(''a'', JNum 1)])
         (noOptions\<lparr>opt_observe := Val ''body''\<rparr>) = Inr c"
  "\<exists>c. post flatPlatform ''/items'' (JStr ''response'')
         (noOptions\<lparr>opt_observe := Val ''response''\<rparr>) = Inr c"
  by (simp_all add: post_def send_merged merged_fields strOrUndefined_def noOptions_def
        parseRequestBody_def)

lemma okResponse_json:
  "opt_responseType options = Absent \<Longrightarrow>
     parseResponseBody (strOrUndefined (opt_responseType (spread defaultOptions options))) okResponse
       = Inr (Inr (JNum 1))"
  by (simp add: merged_fields strOrUndefined_def parseResponseBody_def okResponse_def)




section \<open>The claims\<close>

text \<open>
  C7. Every public operation hands \<^verbatim>\<open>{ ...defaultOptions, ...options }\<close> to the call. In
  it, a field the caller omitted has its default (headers \<open>{}\<close>, params \<open>{}\<close>, observe
  \<open>body\<close>, contentType \<open>json\<close>, responseType \<open>json\<close>, timeout 30000) and a field the
  caller supplied has the caller's value, undefined when the caller supplied undefined. The
  merge is shallow: whatever mapping the first operand has for headers, a supplied headers
  mapping replaces it whole.
\<close>

theorem spread_defaultOptions:
  "opt_headers (spread defaultOptions options) =
     (if opt_headers options = Absent then Val [] else opt_headers options)
   \<and> opt_params (spread defaultOptions options) =
     (if opt_params options = Absent then Val [] else opt_params options)
   \<and> opt_observe (spread defaultOptions options) =
     (if opt_observe options = Absent then Val ''body'' else opt_observe options)
   \<and> opt_contentType (spread defaultOptions options) =
     (if opt_contentType options = Absent then Val ''json'' else opt_contentType options)
   \<and> opt_responseType (spread defaultOptions options) =
     (if opt_responseType options = Absent then Val ''json'' else opt_responseType options)
   \<and> opt_timeout (spread defaultOptions options) =
     (if opt_timeout options = Absent then Val 30000 else opt_timeout options)
   \<and> opt_headers (spread a options) =
     (if opt_headers options = Absent then opt_headers a else opt_headers options)
   \<and> (r \<in> {get env url options, delete env url options, post env url body options,
             put env url body options, patch env url body options} \<and> r = Inr c \<longrightarrow>
        call_options c = spread defaultOptions options)"
proof -
  have "opt_headers (spread a options) =
          (if opt_headers options = Absent then opt_headers a else opt_headers options)"
    by (simp add: spread_def override_def split: field.splits)
  moreover have "r \<in> {get env url options, delete env url options, post env url body options,
             put env url body options, patch env url body options} \<and> r = Inr c \<longrightarrow>
        call_options c = spread defaultOptions options"
    using public_ops_call [of r env url options body c] by blast
  ultimately show ?thesis
    by (simp only: merged_fields simp_thms)
qed

theorem spread_defaultOptions_witness:
  "get flatPlatform ''/ping'' noOptions = Inr pingCall
   \<and> call_options pingCall = spread defaultOptions noOptions
   \<and> spread defaultOptions noOptions =
       \<lparr> opt_headers = Val [], opt_params = Val [], opt_observe = Val ''body'',
         opt_contentType = Val ''json'', opt_responseType = Val ''json'',
         opt_timeout = Val 30000 \<rparr>
   \<and> opt_headers (spread (defaultOptions\<lparr>opt_headers := Val [(''Accept'', JStr ''text/html'')]\<rparr>)
        (noOptions\<lparr>opt_headers := Val [(''X-Id'', JStr ''7'')]\<rparr>)) = Val [(''X-Id'', JStr ''7'')]
   \<and> opt_timeout (spread defaultOptions (noOptions\<lparr>opt_timeout := Undef\<rparr>)) = Undef"
proof -
  have m: "get flatPlatform ''/ping'' noOptions
             \<in> {get flatPlatform ''/ping'' noOptions, delete flatPlatform ''/ping'' noOptions,
                post flatPlatform ''/ping'' JNull noOptions, put flatPlatform ''/ping'' JNull noOptions,
                patch flatPlatform ''/ping'' JNull noOptions}
           \<and> get flatPlatform ''/ping'' noOptions = Inr pingCall"
    using get_ping by simp
  note t = spread_defaultOptions [where options = noOptions and env = flatPlatform
             and url = "''/ping''" and body = JNull
             and r = "get flatPlatform ''/ping'' noOptions" and c = pingCall]
  from t m have "call_options pingCall = spread defaultOptions noOptions"
    by blast
  moreover have "opt_headers (spread (defaultOptions\<lparr>opt_headers := Val [(''Accept'', JStr ''text/html'')]\<rparr>)
        (noOptions\<lparr>opt_headers := Val [(''X-Id'', JStr ''7'')]\<rparr>)) = Val [(''X-Id'', JStr ''7'')]"
    using spread_defaultOptions [where options = "noOptions\<lparr>opt_headers := Val [(''X-Id'', JStr ''7'')]\<rparr>"
            and a = "defaultOptions\<lparr>opt_headers := Val [(''Accept'', JStr ''text/html'')]\<rparr>"]
    by simp
  moreover have "opt_timeout (spread defaultOptions (noOptions\<lparr>opt_timeout := Undef\<rparr>)) = Undef"
    using spread_defaultOptions [where options = "noOptions\<lparr>opt_timeout := Undef\<rparr>"]
    by simp
  moreover have "spread defaultOptions noOptions =
       \<lparr> opt_headers = Val [], opt_params = Val [], opt_observe = Val ''body'',
         opt_contentType = Val ''json'', opt_responseType = Val ''json'',
         opt_timeout = Val 30000 \<rparr>"
    unfolding spread_noOptions by (simp add: defaultOptions_def)
  ultimately show ?thesis
    using get_ping by blast
qed

text \<open>
  C9. Combining a base URL with the empty params mapping returns the URL unchanged;
  combining it with \<open>{a: 1}\<close> returns the URL followed by \<open>?a=1\<close>, the codec writing
  \<open>{a: 1}\<close> as \<open>a=1\<close>.
\<close>

theorem combineQueryStrings_examples:
  assumes "qs_stringify env (JObj [(''a'', JNum 1)]) = ''a=1''"
  shows "combineQueryStrings env url [] = url
         \<and> combineQueryStrings env url [(''a'', JNum 1)] = url @ ''?a=1''"
  using assms by (simp add: combineQueryStrings_def)

theorem combineQueryStrings_examples_witness:
  "qs_stringify flatPlatform (JObj [(''a'', JNum 1)]) = ''a=1''
   \<and> combineQueryStrings flatPlatform ''/items'' [] = ''/items''
   \<and> combineQueryStrings flatPlatform ''/items'' [(''a'', JNum 1)] = ''/items?a=1''"
proof -
  have h: "qs_stringify flatPlatform (JObj [(''a'', JNum 1)]) = ''a=1''"
    by code_simp
  from combineQueryStrings_examples [OF h, of "''/items''"] h show ?thesis by simp
qed

text \<open>
  C8, as the code has it. Under content type \<open>text\<close> the encoder returns null for every
  falsy payload, absent or present, and hands a truthy payload on unchanged; it never
  returns the empty string.
\<close>

theorem parseRequestBody_text:
  "parseRequestBody env ''text'' body = Inr (if truthy body then body else JNull)
   \<and> parseRequestBody env ''text'' body \<noteq> Inr (JStr [])"
  by (auto simp add: parseRequestBody_def)

text \<open>
  C8 as stated fails: the empty string is a present, falsy payload, and under \<open>text\<close> it
  encodes to null, not to the empty string.
\<close>

theorem parseRequestBody_text_empty:
  "parseRequestBody flatPlatform ''text'' (JStr []) = Inr JNull
   \<and> parseRequestBody flatPlatform ''text'' (JStr []) \<noteq> Inr (JStr [])"
  by (simp add: parseRequestBody_def)

text \<open>
  C6. A call that \<^verbatim>\<open>patch\<close> starts is issued to the transport with the method \<open>PUT\<close>;
  \<^verbatim>\<open>patch\<close> does what \<^verbatim>\<open>put\<close> does.
\<close>

theorem patch_issues_PUT:
  assumes "patch env url body options = Inr c"
  shows "req_method (call_request c) = ''PUT''
         \<and> patch env url body options = put env url body options"
  using send_Inr [of env "''put''" url "spread defaultOptions options" body c] assms
  by (simp add: patch_def put_def toUpperCase_methods)

theorem patch_issues_PUT_witness:
  "\<exists>c. patch flatPlatform ''/items'' (JObj [(''a'', JNum 1)]) noOptions = Inr c
       \<and> req_method (call_request c) = ''PUT''"
proof -
  from patch_items obtain c
    where c: "patch flatPlatform ''/items'' (JObj [(''a'', JNum 1)]) noOptions = Inr c" ..
  from patch_issues_PUT [OF c] have "req_method (call_request c) = ''PUT''"
    by (rule conjunct1)
  with c show ?thesis by blast
qed

text \<open>
  C1: with observe \<open>body\<close> the call should resolve with the parsed body alone. The code
  compares the observe mode with the request payload instead of the text \<open>body\<close>:
  \<^verbatim>\<open>post('/items', {a: 1}, {observe: 'body'})\<close> on a 200 response whose body parses to 1
  resolves with the metadata and the body, not with 1; and \<^verbatim>\<open>observe: 'response'\<close> resolves
  with the body alone when the payload happens to be the text \<open>response\<close>.
\<close>

theorem observe_compared_with_payload:
  "(\<exists>c. post flatPlatform ''/items'' (JObj [(''a'', JNum 1)])
          (noOptions\<lparr>opt_observe := Val ''body''\<rparr>) = Inr c
        \<and> outcome c [FetchResolves okResponse, BodySettles] =
            Resolved (JObj [(''headers'', JObj []), (''ok'', JBool True), (''redirected'', JBool False),
                            (''status'', JNum 200), (''type'', JStr ''basic''), (''url'', JStr ''/ping''),
                            (''body'', JNum 1)])
        \<and> outcome c [FetchResolves okResponse, BodySettles] \<noteq> Resolved (JNum 1))
   \<and> (\<exists>c. post flatPlatform ''/items'' (JStr ''response'')
          (noOptions\<lparr>opt_observe := Val ''response''\<rparr>) = Inr c
        \<and> outcome c [FetchResolves okResponse, BodySettles] = Resolved (JNum 1))"
proof -
  have st: "res_status okResponse = 200"
    by (simp add: okResponse_def)
  have full: "JObj (baseResponse okResponse @ [(''body'', JNum 1)]) =
      JObj [(''headers'', JObj []), (''ok'', JBool True), (''redirected'', JBool False),
            (''status'', JNum 200), (''type'', JStr ''basic''), (''url'', JStr ''/ping''),
            (''body'', JNum 1)]"
    by (simp add: baseResponse_def okResponse_def)
  let ?o1 = "noOptions\<lparr>opt_observe := Val ''body''\<rparr>"
  let ?o2 = "noOptions\<lparr>opt_observe := Val ''response''\<rparr>"
  from post_observe_body(1) obtain c1
    where c1: "post flatPlatform ''/items'' (JObj [(''a'', JNum 1)]) ?o1 = Inr c1" ..
  then have f1: "call_options c1 = spread defaultOptions ?o1" "call_body c1 = JObj [(''a'', JNum 1)]"
    using send_Inr [of flatPlatform "''post''" "''/items''" "spread defaultOptions ?o1" _ c1]
    by (simp_all add: post_def)
  have r1: "parseResponseBody (strOrUndefined (opt_responseType (call_options c1))) okResponse
              = Inr (Inr (JNum 1))"
    unfolding f1 by (rule okResponse_json) (simp add: noOptions_def)
  have o1: "outcome c1 [FetchResolves okResponse, BodySettles] =
              Resolved (JObj (baseResponse okResponse @ [(''body'', JNum 1)]))"
    using outcome_classified [OF r1, of "[]"] st
    by (simp add: f1 merged_fields observeEqBody_def noOptions_def)
  from post_observe_body(2) obtain c2
    where c2: "post flatPlatform ''/items'' (JStr ''response'') ?o2 = Inr c2" ..
  then have f2: "call_options c2 = spread defaultOptions ?o2" "call_body c2 = JStr ''response''"
    using send_Inr [of flatPlatform "''post''" "''/items''" "spread defaultOptions ?o2" _ c2]
    by (simp_all add: post_def)
  have r2: "parseResponseBody (strOrUndefined (opt_responseType (call_options c2))) okResponse
              = Inr (Inr (JNum 1))"
    unfolding f2 by (rule okResponse_json) (simp add: noOptions_def)
  have o2: "outcome c2 [FetchResolves okResponse, BodySettles] = Resolved (JNum 1)"
    using outcome_classified [OF r2, of "[]"] st
    by (simp add: f2 merged_fields observeEqBody_def noOptions_def)
  from c1 o1 c2 o2 show ?thesis unfolding full by auto
qed

text \<open>
  C2, as the code has it. For a call that \<^verbatim>\<open>send\<close> has started and a response whose body
  parses: when the response and the parsed body both arrive before the timer fires, the
  call resolves exactly when the status is 200 (with the data alone or with the metadata
  and the data, as the observe test decides), and for every other status it rejects with
  the six metadata fields of the response, the name \<open>httpErrorResponse\<close> and the parsed
  body as \<open>error\<close>; later events change nothing. When the timer fires after the response
  but before the parsed body, the call rejects with the timeout envelope, whatever the
  status.
\<close>

theorem status_200_classifies:
  assumes "send env method url options body = Inr c"
    and "parseResponseBody (strOrUndefined (opt_responseType options)) response = Inr (Inr data)"
  shows "outcome c (FetchResolves response # BodySettles # evs) =
           (if res_status response = 200
            then Resolved (if observeEqBody (opt_observe options) body then data
                           else JObj [(''headers'', res_headers response),
                                      (''ok'', JBool (res_ok response)),
                                      (''redirected'', JBool (res_redirected response)),
                                      (''status'', JNum (res_status response)),
                                      (''type'', JStr (res_type response)),
                                      (''url'', JStr (res_url response)),
                                      (''body'', data)])
            else Rejected (JObj [(''headers'', res_headers response),
                                 (''ok'', JBool (res_ok response)),
                                 (''redirected'', JBool (res_redirected response)),
                                 (''status'', JNum (res_status response)),
                                 (''type'', JStr (res_type response)),
                                 (''url'', JStr (res_url response)),
                                 (''name'', JStr ''httpErrorResponse''),
                                 (''error'', data)]))
         \<and> outcome c (FetchResolves response # TimerFires # evs) =
             Rejected (JObj [(''name'', JStr ''timeout''), (''message'', JStr ''timeout'')])"
proof -
  from send_Inr [OF assms(1)] have c: "call_options c = options" "call_body c = body"
    by simp_all
  with assms(2)
  have r: "parseResponseBody (strOrUndefined (opt_responseType (call_options c))) response = Inr (Inr data)"
    by simp
  from outcome_classified [OF r, of evs] outcome_timer_while_reading [OF r, of evs] c
  show ?thesis
    by (simp add: baseResponse_append timeout_def)
qed

theorem status_200_classifies_witness:
  "send flatPlatform ''get'' ''/ping'' defaultOptions JNull = Inr pingCall
   \<and> parseResponseBody (strOrUndefined (opt_responseType defaultOptions)) okResponse = Inr (Inr (JNum 1))
   \<and> parseResponseBody (strOrUndefined (opt_responseType defaultOptions)) notFoundResponse = Inr (Inr (JNum 0))
   \<and> outcome pingCall [FetchResolves okResponse, BodySettles] =
       Resolved (JObj [(''headers'', JObj []), (''ok'', JBool True), (''redirected'', JBool False),
                       (''status'', JNum 200), (''type'', JStr ''basic''), (''url'', JStr ''/ping''),
                       (''body'', JNum 1)])
   \<and> outcome pingCall [FetchResolves notFoundResponse, BodySettles] =
       Rejected (JObj [(''headers'', JObj []), (''ok'', JBool False), (''redirected'', JBool False),
                       (''status'', JNum 404), (''type'', JStr ''basic''), (''url'', JStr ''/ping''),
                       (''name'', JStr ''httpErrorResponse''), (''error'', JNum 0)])"
proof -
  have s: "send flatPlatform ''get'' ''/ping'' defaultOptions JNull = Inr pingCall"
    using get_ping by (simp add: get_def spread_noOptions)
  have r: "parseResponseBody (strOrUndefined (opt_responseType defaultOptions)) okResponse = Inr (Inr (JNum 1))"
    and n: "parseResponseBody (strOrUndefined (opt_responseType defaultOptions)) notFoundResponse = Inr (Inr (JNum 0))"
    using pingCall_reader by (simp_all add: pingCall_def)
  have ob: "\<not> observeEqBody (opt_observe defaultOptions) JNull"
    by (rule observeEqBody_JNull)
  from status_200_classifies [OF s r, of "[]"] ob
  have one: "outcome pingCall [FetchResolves okResponse, BodySettles] =
       Resolved (JObj [(''headers'', JObj []), (''ok'', JBool True), (''redirected'', JBool False),
                       (''status'', JNum 200), (''type'', JStr ''basic''), (''url'', JStr ''/ping''),
                       (''body'', JNum 1)])"
    by (simp add: okResponse_def)
  from status_200_classifies [OF s n, of "[]"]
  have two: "outcome pingCall [FetchResolves notFoundResponse, BodySettles] =
       Rejected (JObj [(''headers'', JObj []), (''ok'', JBool False), (''redirected'', JBool False),
                       (''status'', JNum 404), (''type'', JStr ''basic''), (''url'', JStr ''/ping''),
                       (''name'', JStr ''httpErrorResponse''), (''error'', JNum 0)])"
    by (simp add: notFoundResponse_def)
  from s r n one two show ?thesis by blast
qed

text \<open>
  C2 as stated fails: the 200 response of \<^verbatim>\<open>get('/ping', {})\<close> arrives before the timer and
  its body parses to 1, but the timer fires before the body reader has finished, and the
  call rejects with the timeout envelope instead of resolving.
\<close>

theorem response_before_timer_times_out:
  "send flatPlatform ''get'' ''/ping'' defaultOptions JNull = Inr pingCall
   \<and> res_status okResponse = 200
   \<and> parseResponseBody (strOrUndefined (opt_responseType defaultOptions)) okResponse = Inr (Inr (JNum 1))
   \<and> outcome pingCall [FetchResolves okResponse, TimerFires, BodySettles] =
       Rejected (JObj [(''name'', JStr ''timeout''), (''message'', JStr ''timeout'')])"
proof -
  have s: "send flatPlatform ''get'' ''/ping'' defaultOptions JNull = Inr pingCall"
    using get_ping by (simp add: get_def spread_noOptions)
  have r: "parseResponseBody (strOrUndefined (opt_responseType defaultOptions)) okResponse = Inr (Inr (JNum 1))"
    using pingCall_reader by (simp add: pingCall_def)
  have st: "res_status okResponse = 200"
    by (simp add: okResponse_def)
  from outcome_timer_while_reading [OF pingCall_reader(1), of "[BodySettles]"]
  have "outcome pingCall [FetchResolves okResponse, TimerFires, BodySettles] =
       Rejected (JObj [(''name'', JStr ''timeout''), (''message'', JStr ''timeout'')])"
    by (simp add: timeout_def)
  with s r st show ?thesis by blast
qed

text \<open>
  C3, as the code has it. The network side of the race is the chained promise: transport
  call, body reader and classification. Let the timer fire after the events \<open>evs\<close>. If the
  chain has not settled by then, the call rejects with the timeout envelope, whatever the
  network delivers afterwards; in particular a response that has arrived does not protect
  the call while its body is being read. If the chain has settled by then, the call has
  the chain's result, which is not the timeout envelope, and the timer's firing changes
  nothing.
\<close>

theorem race_first_settles:
  assumes "TimerFires \<notin> set evs"
  shows "outcome c (evs @ TimerFires # evs') =
           (if fst (run c evs) = ChainDone then outcome c evs else Rejected timeout)
         \<and> (if fst (run c evs) = ChainDone
            then outcome c evs \<noteq> Pending \<and> outcome c evs \<noteq> Rejected timeout
            else outcome c evs = Pending)
         \<and> timeout = JObj [(''name'', JStr ''timeout''), (''message'', JStr ''timeout'')]
         \<and> (\<forall>response reader.
               parseResponseBody (strOrUndefined (opt_responseType (call_options c))) response = Inr reader \<longrightarrow>
               fst (run c [FetchResolves response]) \<noteq> ChainDone
               \<and> outcome c (FetchResolves response # TimerFires # evs') = Rejected timeout)"
proof -
  have "timeout = JObj [(''name'', JStr ''timeout''), (''message'', JStr ''timeout'')]"
    by (simp add: timeout_def)
  moreover have "\<forall>response reader.
               parseResponseBody (strOrUndefined (opt_responseType (call_options c))) response = Inr reader \<longrightarrow>
               fst (run c [FetchResolves response]) \<noteq> ChainDone
               \<and> outcome c (FetchResolves response # TimerFires # evs') = Rejected timeout"
    by (simp add: outcome_timer_while_reading run_def)
  ultimately show ?thesis
    using outcome_timer [OF assms, of c evs'] by blast
qed

theorem race_first_settles_witness:
  "TimerFires \<notin> set [FetchResolves okResponse, BodySettles]
   \<and> outcome pingCall ([FetchResolves okResponse, BodySettles] @ TimerFires # []) =
       Resolved (JObj [(''headers'', JObj []), (''ok'', JBool True), (''redirected'', JBool False),
                       (''status'', JNum 200), (''type'', JStr ''basic''), (''url'', JStr ''/ping''),
                       (''body'', JNum 1)])
   \<and> TimerFires \<notin> set []
   \<and> outcome pingCall ([] @ TimerFires # [FetchResolves okResponse, BodySettles]) =
       Rejected timeout
   \<and> TimerFires \<notin> set [FetchResolves okResponse]
   \<and> outcome pingCall ([FetchResolves okResponse] @ TimerFires # [BodySettles]) =
       Rejected timeout"
proof -
  have a: "TimerFires \<notin> set [FetchResolves okResponse, BodySettles]"
    and b: "TimerFires \<notin> set []"
    and d: "TimerFires \<notin> set [FetchResolves okResponse]"
    by simp_all
  from race_first_settles [OF a, of pingCall "[]"]
       race_first_settles [OF b, of pingCall "[FetchResolves okResponse, BodySettles]"]
       race_first_settles [OF d, of pingCall "[BodySettles]"]
  show ?thesis
    using ping_ok by (simp add: run_ping)
qed

text \<open>
  C3 as stated fails in its converse: the transport call of \<^verbatim>\<open>get('/ping', {})\<close> settles
  first, with a 404 response. Left alone, the call rejects with the \<open>httpErrorResponse\<close>
  envelope; the timer firing afterwards, before the body is read, turns that into the
  timeout envelope.
\<close>

theorem timer_after_response_changes_outcome:
  "outcome pingCall [FetchResolves notFoundResponse, BodySettles] =
     Rejected (JObj [(''headers'', JObj []), (''ok'', JBool False), (''redirected'', JBool False),
                     (''status'', JNum 404), (''type'', JStr ''basic''), (''url'', JStr ''/ping''),
                     (''name'', JStr ''httpErrorResponse''), (''error'', JNum 0)])
   \<and> outcome pingCall [FetchResolves notFoundResponse, TimerFires, BodySettles] =
       Rejected (JObj [(''name'', JStr ''timeout''), (''message'', JStr ''timeout'')])"
  using ping_notFound outcome_timer_while_reading [OF pingCall_reader(2), of "[BodySettles]"]
  by (simp add: timeout_def)







text \<open>
  C10. A call that \<^verbatim>\<open>get\<close> or \<^verbatim>\<open>delete\<close> has started carries a null payload. Whatever
  the observe option, a value such a call resolves with is the object of the six metadata
  fields of a status-200 response that arrived, with its parsed body attached as \<open>body\<close>,
  never the parsed body alone; and a 200 response whose body parses before the timer
  fires does resolve the call so.
\<close>

theorem get_delete_resolve_full_object:
  assumes "r = get env url options \<or> r = delete env url options"
    and "r = Inr c"
  shows "call_body c = JNull
         \<and> (\<forall>evs v. outcome c evs = Resolved v \<longrightarrow>
              (\<exists>response data. FetchResolves response \<in> set evs
                 \<and> res_status response = 200
                 \<and> parseResponseBody (strOrUndefined (opt_responseType (spread defaultOptions options)))
                     response = Inr (Inr data)
                 \<and> v = JObj [(''headers'', res_headers response),
                             (''ok'', JBool (res_ok response)),
                             (''redirected'', JBool (res_redirected response)),
                             (''status'', JNum (res_status response)),
                             (''type'', JStr (res_type response)),
                             (''url'', JStr (res_url response)),
                             (''body'', data)]))
         \<and> (\<forall>response data evs. res_status response = 200
              \<and> parseResponseBody (strOrUndefined (opt_responseType (spread defaultOptions options)))
                  response = Inr (Inr data) \<longrightarrow>
              outcome c (FetchResolves response # BodySettles # evs) =
                Resolved (JObj [(''headers'', res_headers response),
                                (''ok'', JBool (res_ok response)),
                                (''redirected'', JBool (res_redirected response)),
                                (''status'', JNum (res_status response)),
                                (''type'', JStr (res_type response)),
                                (''url'', JStr (res_url response)),
                                (''body'', data)]))"
proof -
  from assms obtain m
    where "send env m url (spread defaultOptions options) JNull = Inr c"
    unfolding get_def delete_def by auto
  from send_Inr [OF this]
  have f: "call_options c = spread defaultOptions options" "call_body c = JNull" by simp_all
  have ob: "\<not> observeEqBody (opt_observe (call_options c)) (call_body c)"
    by (simp add: f observeEqBody_JNull)
  have full: "\<exists>response data. FetchResolves response \<in> set evs
                 \<and> res_status response = 200
                 \<and> parseResponseBody (strOrUndefined (opt_responseType (spread defaultOptions options)))
                     response = Inr (Inr data)
                 \<and> v = JObj [(''headers'', res_headers response),
                             (''ok'', JBool (res_ok response)),
                             (''redirected'', JBool (res_redirected response)),
                             (''status'', JNum (res_status response)),
                             (''type'', JStr (res_type response)),
                             (''url'', JStr (res_url response)),
                             (''body'', data)]"
    if "outcome c evs = Resolved v" for evs v
    using outcome_resolved_cases [OF that] ob
    unfolding f(1) baseResponse_append append_Nil by auto
  have ok: "outcome c (FetchResolves response # BodySettles # evs) =
                Resolved (JObj [(''headers'', res_headers response),
                                (''ok'', JBool (res_ok response)),
                                (''redirected'', JBool (res_redirected response)),
                                (''status'', JNum (res_status response)),
                                (''type'', JStr (res_type response)),
                                (''url'', JStr (res_url response)),
                                (''body'', data)])"
    if a: "res_status response = 200
              \<and> parseResponseBody (strOrUndefined (opt_responseType (spread defaultOptions options)))
                  response = Inr (Inr data)"
    for response data evs
  proof -
    from a have "parseResponseBody (strOrUndefined (opt_responseType (call_options c))) response
                 = Inr (Inr data)"
      by (simp add: f)
    from outcome_classified [OF this, of evs] a ob show ?thesis
      by (simp add: baseResponse_append)
  qed
  from f(2) full ok show ?thesis by blast
qed

theorem get_delete_resolve_full_object_witness:
  "get flatPlatform ''/ping'' noOptions = Inr pingCall
   \<and> opt_observe (call_options pingCall) = Val ''body''
   \<and> outcome pingCall [FetchResolves okResponse, BodySettles] =
       Resolved (JObj [(''headers'', JObj []), (''ok'', JBool True), (''redirected'', JBool False),
                       (''status'', JNum 200), (''type'', JStr ''basic''), (''url'', JStr ''/ping''),
                       (''body'', JNum 1)])"
proof -
  have g: "get flatPlatform ''/ping'' noOptions = get flatPlatform ''/ping'' noOptions
          \<or> get flatPlatform ''/ping'' noOptions = delete flatPlatform ''/ping'' noOptions"
    by simp
  from get_delete_resolve_full_object [OF g get_ping]
  have "\<forall>response data evs. res_status response = 200
          \<and> parseResponseBody (strOrUndefined (opt_responseType (spread defaultOptions noOptions)))
              response = Inr (Inr data) \<longrightarrow>
          outcome pingCall (FetchResolves response # BodySettles # evs) =
            Resolved (JObj [(''headers'', res_headers response),
                            (''ok'', JBool (res_ok response)),
                            (''redirected'', JBool (res_redirected response)),
                            (''status'', JNum (res_status response)),
                            (''type'', JStr (res_type response)),
                            (''url'', JStr (res_url response)),
                            (''body'', data)])"
    by blast
  moreover have "res_status okResponse = 200"
    by (simp add: okResponse_def)
  moreover have "parseResponseBody (strOrUndefined (opt_responseType (spread defaultOptions noOptions)))
                   okResponse = Inr (Inr (JNum 1))"
    by (rule okResponse_json) (simp add: noOptions_def)
  ultimately have "outcome pingCall [FetchResolves okResponse, BodySettles] =
            Resolved (JObj [(''headers'', res_headers okResponse),
                            (''ok'', JBool (res_ok okResponse)),
                            (''redirected'', JBool (res_redirected okResponse)),
                            (''status'', JNum (res_status okResponse)),
                            (''type'', JStr (res_type okResponse)),
                            (''url'', JStr (res_url okResponse)),
                            (''body'', JNum 1)])"
    by blast
  then show ?thesis
    using get_ping by (simp add: okResponse_def pingCall_def defaultOptions_def)
qed

end
